theory Spec2Isabelle
  imports Main "HOL-Library.AList" "HOL-Library.Sublist" "HOL-Library.Word"
begin

section \<open>JavaScript values\<close>

text \<open>
  The hook and the API service work on untyped JavaScript values: task objects decoded from
  storage or from a response, identifiers, error objects. A value is modelled as follows.
  \<^item> Numbers are the integers from \<open>-2^53\<close> to \<open>2^53 - 1\<close> (identifiers, counters and HTTP
    statuses), held in a signed word of 54 bits. Each of them is a JavaScript number, and
    \<open>String\<close> gives its decimal digits.
  \<^item> A string is a list of characters; a character stands for a code unit below 256.
  \<^item> An object is an association list with distinct keys; the position of a key carries no
    meaning. Object spread overwrites the value of a key that is present and adds a key that
    is absent, which is what \<open>AList.update\<close> does.
  \<^item> An array or an object value carries a reference, a number that tells it from every
    other array and object. \<open>===\<close> on two of them compares the references; on primitive
    values it is equality of the values. The objects that the program builds itself (errors,
    request payloads) or that \<open>fetch\<close> throws are never an operand of \<open>===\<close>; they carry
    the reference 0. A task of the list is kept as its entries, without a reference: tasks
    are not compared.
\<close>

type_synonym jsnum = "54 word"

type_synonym ref = nat

datatype jsval =
    JUndefined
  | JNull
  | JBool bool
  | JNum jsnum
  | JStr string
  | JArr ref "jsval list"
  | JObj ref "(string \<times> jsval) list"

type_synonym obj = "(string \<times> jsval) list"

text \<open>Truthiness: \<open>!!v\<close>.\<close>

fun truthy :: "jsval \<Rightarrow> bool" where
  "truthy JUndefined = False"
| "truthy JNull = False"
| "truthy (JBool b) = b"
| "truthy (JNum n) = (n \<noteq> 0)"
| "truthy (JStr s) = (s \<noteq> [])"
| "truthy (JArr r xs) = True"
| "truthy (JObj r kvs) = True"

text \<open>\<open>a ?? b\<close>\<close>

fun nullish :: "jsval \<Rightarrow> bool" where
  "nullish JUndefined = True"
| "nullish JNull = True"
| "nullish v = False"

definition coalesce :: "jsval \<Rightarrow> jsval \<Rightarrow> jsval" where
  "coalesce a b = (if nullish a then b else a)"

text \<open>\<open>a || b\<close>\<close>

definition js_or :: "jsval \<Rightarrow> jsval \<Rightarrow> jsval" where
  "js_or a b = (if truthy a then a else b)"

text \<open>\<open>typeof v === "object"\<close> (true of \<open>null\<close> as well), \<open>typeof v === "string"\<close>,
  \<open>typeof v === "number"\<close>, \<open>Array.isArray(v)\<close>.\<close>

fun typeof_object :: "jsval \<Rightarrow> bool" where
  "typeof_object JNull = True"
| "typeof_object (JArr r xs) = True"
| "typeof_object (JObj r kvs) = True"
| "typeof_object v = False"

fun typeof_string :: "jsval \<Rightarrow> bool" where
  "typeof_string (JStr s) = True"
| "typeof_string v = False"

fun typeof_number :: "jsval \<Rightarrow> bool" where
  "typeof_number (JNum n) = True"
| "typeof_number v = False"

fun isArray :: "jsval \<Rightarrow> bool" where
  "isArray (JArr r xs) = True"
| "isArray v = False"

fun is_primitive :: "jsval \<Rightarrow> bool" where
  "is_primitive (JArr r xs) = False"
| "is_primitive (JObj r kvs) = False"
| "is_primitive v = True"

text \<open>\<open>a === b\<close>\<close>

fun strict_eq :: "jsval \<Rightarrow> jsval \<Rightarrow> bool" where
  "strict_eq (JArr r xs) b = (case b of JArr r' ys \<Rightarrow> r = r' | _ \<Rightarrow> False)"
| "strict_eq (JObj r kvs) b = (case b of JObj r' kvs' \<Rightarrow> r = r' | _ \<Rightarrow> False)"
| "strict_eq a b = (a = b)"

text \<open>Property read \<open>o.k\<close> for the named keys used by the program (\<open>id\<close>, \<open>title\<close>, \<dots>):
  an object yields the stored value, anything else \<open>undefined\<close>.\<close>

definition obj_get :: "obj \<Rightarrow> string \<Rightarrow> jsval" where
  "obj_get kvs k = (case map_of kvs k of Some v \<Rightarrow> v | None \<Rightarrow> JUndefined)"

fun js_get :: "jsval \<Rightarrow> string \<Rightarrow> jsval" where
  "js_get (JObj r kvs) k = obj_get kvs k"
| "js_get v k = JUndefined"

subsection \<open>Strings\<close>

text \<open>Decimal text of a number, as \<open>String(n)\<close> gives for an integer.\<close>

fun digit_char :: "nat \<Rightarrow> char" where
  "digit_char n = char_of (48 + n)"

fun string_of_nat :: "nat \<Rightarrow> string" where
  "string_of_nat n =
     (if n < 10 then [digit_char n] else string_of_nat (n div 10) @ [digit_char (n mod 10)])"

declare string_of_nat.simps [simp del]

definition string_of_int :: "int \<Rightarrow> string" where
  "string_of_int i = (if i < 0 then CHR ''-'' # string_of_nat (nat (- i)) else string_of_nat (nat i))"

text \<open>\<open>xs.join(",")\<close> on strings.\<close>

fun join_comma :: "string list \<Rightarrow> string" where
  "join_comma [] = []"
| "join_comma [s] = s"
| "join_comma (s # t # ss) = s @ '','' @ join_comma (t # ss)"

text \<open>\<open>String(v)\<close>: an array is its elements joined by commas, \<open>null\<close> and \<open>undefined\<close>
  elements giving the empty text; a plain object is \<open>[object Object]\<close>.\<close>

fun js_String :: "jsval \<Rightarrow> string" where
  "js_String JUndefined = ''undefined''"
| "js_String JNull = ''null''"
| "js_String (JBool b) = (if b then ''true'' else ''false'')"
| "js_String (JNum n) = string_of_int (sint n)"
| "js_String (JStr s) = s"
| "js_String (JArr r xs) = join_comma (map (\<lambda>x. if nullish x then [] else js_String x) xs)"
| "js_String (JObj r kvs) = ''[object Object]''"

text \<open>White space removed by \<open>trim()\<close>, among the code units below 256: TAB, LF, VT, FF, CR,
  SP and NBSP.\<close>

definition is_space :: "char \<Rightarrow> bool" where
  "is_space c = (of_char c \<in> {9, 10, 11, 12, 13, 32, 160 :: nat})"

definition trim :: "string \<Rightarrow> string" where
  "trim s = rev (dropWhile is_space (rev (dropWhile is_space s)))"

text \<open>\<open>toLowerCase()\<close> on code units below 256: A to Z and the accented capitals of
  Latin-1 move up by 32.\<close>

definition lower_char :: "char \<Rightarrow> char" where
  "lower_char c =
     (let n = (of_char c :: nat)
      in if (65 \<le> n \<and> n \<le> 90) \<or> (192 \<le> n \<and> n \<le> 214) \<or> (216 \<le> n \<and> n \<le> 222)
         then char_of (n + 32) else c)"

definition toLowerCase :: "string \<Rightarrow> string" where
  "toLowerCase s = map lower_char s"

text \<open>\<open>s.includes(q)\<close>: \<open>q\<close> occurs in \<open>s\<close> as a contiguous run.\<close>

definition str_includes :: "string \<Rightarrow> string \<Rightarrow> bool" where
  "str_includes s q = sublist q s"

subsection \<open>Object spread\<close>

text \<open>The own enumerable properties that \<open>{...v}\<close> copies: the entries of an object, the
  indexed elements of an array.\<close>

definition own_props :: "jsval \<Rightarrow> obj" where
  "own_props v =
     (case v of
        JObj r kvs \<Rightarrow> kvs
      | JArr r xs \<Rightarrow> map (\<lambda>(i, x). (string_of_nat i, x)) (enumerate 0 xs)
      | _ \<Rightarrow> [])"

text \<open>\<open>{...base, ...src}\<close>: the entries of \<open>src\<close> are written into \<open>base\<close> in turn.\<close>

definition spread :: "obj \<Rightarrow> obj \<Rightarrow> obj" where
  "spread base src = fold (\<lambda>(k, v). AList.update k v) src base"

text \<open>\<open>a && b\<close>\<close>

definition js_and :: "jsval \<Rightarrow> jsval \<Rightarrow> jsval" where
  "js_and a b = (if truthy a then b else a)"

section \<open>The API service (services/api.js)\<close>

text \<open>
  A request is recorded by its method, its path below the API base and its body before
  serialisation; the base address, the percent-encoding of the identifier and the headers
  are left out. The network is a function from the request to what \<open>fetch\<close> does with it:
  it throws (an \<open>Error\<close> instance or another value), or it resolves with a response, of which
  the status and the payload decoded by \<open>readBodySafely\<close> are kept. Every operation returns
  the requests it issued together with its result, \<open>Inl\<close> the error it threw.
\<close>

record request =
  req_method :: string
  req_path :: "string list"
  req_body :: "jsval option"

datatype fetch_outcome =
    ThrowsError obj
  | ThrowsOther jsval
  | Resolves nat jsval

type_synonym network = "request \<Rightarrow> fetch_outcome"

type_synonym 'a api_result = "request list \<times> (jsval + 'a)"

text \<open>\<open>resp.ok\<close>\<close>

definition resp_ok :: "nat \<Rightarrow> bool" where
  "resp_ok status = (200 \<le> status \<and> status \<le> 299)"

text \<open>The status of a response as a number. A status is below \<open>2^16\<close>; the bound
  \<open>2^53 - 1\<close> keeps the conversion within the numbers for every argument.\<close>

definition status_number :: "nat \<Rightarrow> jsnum" where
  "status_number status = word_of_int (min (int status) 9007199254740991)"

text \<open>\<open>throwForResponse\<close>: the error it throws, from the status and the decoded body.\<close>

definition throwForResponse :: "nat \<Rightarrow> jsval \<Rightarrow> obj" where
  "throwForResponse status body =
     (let message =
            js_or (js_or (js_and body (js_get body ''message''))
                         (if typeof_string body then body else JNull))
                  (JStr (''Request failed with status '' @ string_of_nat status))
      in [(''message'', JStr (js_String message)),
          (''status'', JNum (status_number status)),
          (''details'', body),
          (''isNetworkOrServerError'', JBool (500 \<le> status \<and> status \<le> 599))])"

text \<open>The \<open>catch\<close> block of \<open>requestJson\<close>, on an \<open>Error\<close> instance and on any other value.\<close>

definition catch_error :: "obj \<Rightarrow> jsval" where
  "catch_error e =
     (if \<not> typeof_number (obj_get e ''status'')
      then JObj 0 (AList.update ''isNetworkOrServerError'' (JBool True) e)
      else JObj 0 e)"

definition catch_other :: "jsval" where
  "catch_other =
     JObj 0 [(''message'', JStr ''Unknown error during request''),
           (''isNetworkOrServerError'', JBool True)]"

definition requestJson :: "string list \<Rightarrow> string \<Rightarrow> jsval option \<Rightarrow> network \<Rightarrow> jsval api_result" where
  "requestJson path meth body net =
     (let req = \<lparr>req_method = meth, req_path = path, req_body = body\<rparr>
      in ([req],
          case net req of
            Resolves status decoded \<Rightarrow>
              if \<not> resp_ok status
              then Inl (catch_error (throwForResponse status decoded))
              else Inr decoded
          | ThrowsError e \<Rightarrow> Inl (catch_error e)
          | ThrowsOther v \<Rightarrow> Inl catch_other))"

definition listTodos :: "network \<Rightarrow> jsval api_result" where
  "listTodos net = requestJson [''todos''] ''GET'' None net"

definition createTodo :: "jsval \<Rightarrow> network \<Rightarrow> jsval api_result" where
  "createTodo payload net = requestJson [''todos''] ''POST'' (Some (js_or payload (JObj 0 []))) net"

definition api_updateTodo :: "jsval \<Rightarrow> jsval \<Rightarrow> network \<Rightarrow> jsval api_result" where
  "api_updateTodo ident payload net =
     (if \<not> truthy ident
      then ([], Inl (JObj 0 [(''message'', JStr ''Missing id for updateTodo''), (''status'', JNum 400)]))
      else requestJson [''todos'', js_String ident] ''PATCH'' (Some (js_or payload (JObj 0 []))) net)"

definition api_deleteTodo :: "jsval \<Rightarrow> network \<Rightarrow> jsval api_result" where
  "api_deleteTodo ident net =
     (if \<not> truthy ident
      then ([], Inl (JObj 0 [(''message'', JStr ''Missing id for deleteTodo''), (''status'', JNum 400)]))
      else requestJson [''todos'', js_String ident] ''DELETE'' None net)"

section \<open>Configuration (utils/env.js)\<close>

text \<open>\<open>process.env\<close> is a partial map from variable names to their text.\<close>

type_synonym environment = "string \<Rightarrow> string option"

definition readEnv :: "environment \<Rightarrow> string \<Rightarrow> string option \<Rightarrow> string option" where
  "readEnv env key defaultValue =
     (case env key of
        Some v \<Rightarrow> (let trimmed = trim v in if trimmed \<noteq> [] then Some trimmed else defaultValue)
      | None \<Rightarrow> defaultValue)"

definition internalGetRawApiBase :: "environment \<Rightarrow> string option" where
  "internalGetRawApiBase env =
     (case readEnv env ''REACT_APP_API_BASE'' None of
        Some apiBase \<Rightarrow> if apiBase \<noteq> [] then Some apiBase
                        else (case readEnv env ''REACT_APP_BACKEND_URL'' None of
                                Some backendUrl \<Rightarrow> if backendUrl \<noteq> [] then Some backendUrl else None
                              | None \<Rightarrow> None)
      | None \<Rightarrow> (case readEnv env ''REACT_APP_BACKEND_URL'' None of
                   Some backendUrl \<Rightarrow> if backendUrl \<noteq> [] then Some backendUrl else None
                 | None \<Rightarrow> None))"

definition getDataMode :: "environment \<Rightarrow> string" where
  "getDataMode env =
     (case internalGetRawApiBase env of
        Some base \<Rightarrow> if base \<noteq> [] then ''api'' else ''local''
      | None \<Rightarrow> ''local'')"

section \<open>The storage service (services/storage.js)\<close>



definition generateId :: "string \<Rightarrow> string \<Rightarrow> string \<Rightarrow> string" where
  "generateId ts rand counter = ''todo_app_'' @ ts @ ''_'' @ rand @ ''_'' @ counter"

section \<open>The synchronisation hook (hooks/useTodos.js)\<close>

text \<open>
  The hook takes the results of the storage service as parameters: \<open>stored\<close> is the array
  that \<open>loadTodos()\<close> returns (it returns an array in every case, so that
  \<open>loadLocal() || []\<close> is that array), and an identifier text stands for what \<open>generateId()\<close>
  returns at a call. Where \<open>normalizeTodo\<close> runs over a list, the element at position \<open>i\<close>
  is given \<open>gids i\<close>.

  React state is an explicit record. The model is sequential: a state updater runs when it
  is handed over, an operation runs to completion before the next begins, and the component
  stays mounted. A copy \<open>{...v}\<close> of an object is the object's entries.
\<close>

datatype mode = Api | Local

record hook_state =
  provider :: mode
  allTasks :: "obj list"

definition isNetworkOrServerError :: "jsval \<Rightarrow> bool" where
  "isNetworkOrServerError err =
     (truthy err \<and>
      (truthy (js_get err ''isNetworkOrServerError'') \<or>
       (case js_get err ''status'' of JNum n \<Rightarrow> 500 \<le> sint n | _ \<Rightarrow> False)))"

definition normalizeTodo :: "string \<Rightarrow> jsval \<Rightarrow> obj option" where
  "normalizeTodo gid t =
     (if \<not> truthy t \<or> \<not> typeof_object t then None
      else let ident = coalesce (js_get t ''id'') (coalesce (js_get t ''_id'') (JStr gid))
           in Some (spread [(''id'', ident),
                            (''title'', JStr (trim (js_String (coalesce (js_get t ''title'') (JStr []))))),
                            (''completed'', JBool (truthy (js_get t ''completed'')))]
                           (own_props t)))"

text \<open>\<open>xs.map(normalizeTodo).filter(Boolean)\<close>\<close>

definition normalizeAll :: "(nat \<Rightarrow> string) \<Rightarrow> jsval list \<Rightarrow> obj list" where
  "normalizeAll gids xs = List.map_filter (\<lambda>(i, x). normalizeTodo (gids i) x) (enumerate 0 xs)"

definition filterAndSearch :: "obj list \<Rightarrow> jsval \<Rightarrow> string \<Rightarrow> obj list" where
  "filterAndSearch tasks flt search =
     (let q = toLowerCase (trim search)
      in filter (\<lambda>t.
           let matchesFilter =
                 (if flt = JStr ''all'' then True
                  else if flt = JStr ''active'' then \<not> truthy (obj_get t ''completed'')
                  else if flt = JStr ''completed'' then truthy (obj_get t ''completed'')
                  else True);
               matchesSearch =
                 (if q \<noteq> [] then str_includes (toLowerCase (js_String (js_or (obj_get t ''title'') (JStr [])))) q
                  else True)
           in matchesFilter \<and> matchesSearch) tasks)"

text \<open>The two \<open>useState\<close> initialisers.\<close>

definition initial_mode :: "environment \<Rightarrow> mode" where
  "initial_mode env = (if getDataMode env = ''api'' then Api else Local)"

definition initial_state :: "environment \<Rightarrow> jsval list \<Rightarrow> (nat \<Rightarrow> string) \<Rightarrow> hook_state" where
  "initial_state env stored gids =
     \<lparr>provider = initial_mode env,
      allTasks = (if initial_mode env = Local then normalizeAll gids stored else [])\<rparr>"

text \<open>The mount effect \<open>init\<close>.\<close>

definition init :: "environment \<Rightarrow> jsval list \<Rightarrow> (nat \<Rightarrow> string) \<Rightarrow> network \<Rightarrow> hook_state \<Rightarrow> hook_state" where
  "init env stored gids net st =
     (let m = (if getDataMode env = ''api'' then Api else Local);
          st1 = st\<lparr>provider := m\<rparr>
      in if m = Local then st1\<lparr>allTasks := normalizeAll gids stored\<rparr>
         else (case snd (listTodos net) of
                 Inr lst \<Rightarrow>
                   st1\<lparr>allTasks := (case lst of JArr r xs \<Rightarrow> normalizeAll gids xs | _ \<Rightarrow> [])\<rparr>
               | Inl err \<Rightarrow>
                   if isNetworkOrServerError err
                   then st1\<lparr>provider := Local, allTasks := normalizeAll gids stored\<rparr>
                   else st1))"

text \<open>The session start: the initial state, then the mount effect.\<close>

definition session_start ::
  "environment \<Rightarrow> jsval list \<Rightarrow> (nat \<Rightarrow> string) \<Rightarrow> (nat \<Rightarrow> string) \<Rightarrow> network \<Rightarrow> hook_state" where
  "session_start env stored gids0 gids1 net = init env stored gids1 net (initial_state env stored gids0)"

text \<open>
  \<open>withOptimistic\<close>, in its two phases. The optimistic phase is the first \<open>setAllTasks\<close>,
  which either branch makes. The commit phase is the \<open>try\<close> block of the API branch: the
  outcome of \<open>apiCall\<close> is \<open>Inl\<close> the error it threw or \<open>Inr\<close> the state update it made
  before it returned (the identity when it made none).
\<close>

type_synonym update = "obj list \<Rightarrow> obj list"

definition optimistic_phase :: "update \<Rightarrow> hook_state \<Rightarrow> hook_state" where
  "optimistic_phase applyLocalChange st = st\<lparr>allTasks := applyLocalChange (allTasks st)\<rparr>"

definition commit_phase ::
  "obj list \<Rightarrow> (jsval + update) \<Rightarrow> (obj list \<Rightarrow> obj list \<Rightarrow> obj list) option \<Rightarrow> hook_state \<Rightarrow> hook_state" where
  "commit_phase snapshot apiCall rollbackOnError st1 =
     (case apiCall of
        Inr upd \<Rightarrow> st1\<lparr>allTasks := upd (allTasks st1)\<rparr>
      | Inl err \<Rightarrow>
          let st2 = st1\<lparr>allTasks :=
                      (case rollbackOnError of
                         Some rb \<Rightarrow> rb (allTasks st1) snapshot
                       | None \<Rightarrow> snapshot)\<rparr>
          in if isNetworkOrServerError err then st2\<lparr>provider := Local\<rparr> else st2)"

definition withOptimistic ::
  "update \<Rightarrow> (jsval + update) \<Rightarrow> (obj list \<Rightarrow> obj list \<Rightarrow> obj list) option \<Rightarrow> hook_state \<Rightarrow> hook_state" where
  "withOptimistic applyLocalChange apiCall rollbackOnError st =
     (if provider st = Local then optimistic_phase applyLocalChange st
      else commit_phase (allTasks st) apiCall rollbackOnError (optimistic_phase applyLocalChange st))"

text \<open>The rollback every operation passes: \<open>(prev, snapshot) => snapshot\<close>.\<close>

definition restore_snapshot :: "(obj list \<Rightarrow> obj list \<Rightarrow> obj list) option" where
  "restore_snapshot = Some (\<lambda>prev snapshot. snapshot)"

text \<open>An awaited call followed by the rest of the \<open>apiCall\<close> body.\<close>

definition await_then :: "(jsval + 'a) \<Rightarrow> ('a \<Rightarrow> update) \<Rightarrow> jsval + update" where
  "await_then r k = (case r of Inl e \<Rightarrow> Inl e | Inr v \<Rightarrow> Inr (k v))"

text \<open>\<open>Promise.allSettled\<close> never rejects: it resolves with the outcomes.\<close>

definition allSettled :: "(jsval + jsval) list \<Rightarrow> jsval + (jsval + jsval) list" where
  "allSettled rs = Inr rs"

text \<open>\<open>addTodo\<close>: \<open>gid\<close> is the identifier generated for the new item, \<open>gid2\<close> the one
  \<open>normalizeTodo\<close> would generate for the created object. The function handed to
  \<open>withOptimistic\<close> as \<open>apiCall\<close> has a name of its own here; its first argument is the
  \<open>provider\<close> of the closure.\<close>

definition addTodo_apiCall :: "mode \<Rightarrow> string \<Rightarrow> string \<Rightarrow> obj \<Rightarrow> network \<Rightarrow> jsval + update" where
  "addTodo_apiCall prov gid2 trimmed newItem net =
     (if prov = Api
      then await_then
             (snd (createTodo (JObj 0 [(''title'', JStr trimmed), (''completed'', JBool False)]) net))
             (\<lambda>created.
                case normalizeTodo gid2 created of
                  Some normalized \<Rightarrow>
                    map (\<lambda>t. if strict_eq (obj_get t ''id'') (obj_get newItem ''id'')
                              then normalized else t)
                | None \<Rightarrow> id)
      else Inr id)"

definition addTodo :: "string \<Rightarrow> string \<Rightarrow> jsval \<Rightarrow> network \<Rightarrow> hook_state \<Rightarrow> hook_state" where
  "addTodo gid gid2 title net st =
     (let trimmed = trim (js_String (js_or title (JStr [])))
      in if trimmed = [] then st
         else (case normalizeTodo gid (JObj 0 [(''id'', JStr gid), (''title'', JStr trimmed),
                                               (''completed'', JBool False)]) of
                 None \<Rightarrow> st
               | Some newItem \<Rightarrow>
                   withOptimistic
                     (\<lambda>prev. newItem # prev)
                     (addTodo_apiCall (provider st) gid2 trimmed newItem net)
                     restore_snapshot st))"

definition toggleTodo :: "jsval \<Rightarrow> network \<Rightarrow> hook_state \<Rightarrow> hook_state" where
  "toggleTodo ident net st =
     (if \<not> truthy ident then st
      else (case find (\<lambda>t. strict_eq (obj_get t ''id'') ident) (allTasks st) of
              None \<Rightarrow> st
            | Some target \<Rightarrow>
                let nextCompleted = \<not> truthy (obj_get target ''completed'')
                in withOptimistic
                     (map (\<lambda>t. if strict_eq (obj_get t ''id'') ident
                                then spread t [(''completed'', JBool nextCompleted)] else t))
                     (if provider st = Api
                      then await_then
                             (snd (api_updateTodo ident (JObj 0 [(''completed'', JBool nextCompleted)]) net))
                             (\<lambda>r. id)
                      else Inr id)
                     restore_snapshot st))"

definition updateTodo :: "jsval \<Rightarrow> jsval \<Rightarrow> network \<Rightarrow> hook_state \<Rightarrow> hook_state" where
  "updateTodo ident updates net st =
     (if \<not> truthy ident \<or> \<not> truthy updates \<or> \<not> typeof_object updates then st
      else let copied = own_props updates;
               safeUpdates = (case obj_get copied ''title'' of
                                JStr s \<Rightarrow> AList.update ''title'' (JStr (trim s)) copied
                              | _ \<Rightarrow> copied)
           in withOptimistic
                (map (\<lambda>t. if strict_eq (obj_get t ''id'') ident then spread t safeUpdates else t))
                (if provider st = Api
                 then await_then (snd (api_updateTodo ident (JObj 0 safeUpdates) net)) (\<lambda>r. id)
                 else Inr id)
                restore_snapshot st)"

definition deleteTodo :: "jsval \<Rightarrow> network \<Rightarrow> hook_state \<Rightarrow> hook_state" where
  "deleteTodo ident net st =
     (if \<not> truthy ident then st
      else withOptimistic
             (filter (\<lambda>t. \<not> strict_eq (obj_get t ''id'') ident))
             (if provider st = Api
              then await_then (snd (api_deleteTodo ident net)) (\<lambda>r. id)
              else Inr id)
             restore_snapshot st)"

definition clearCompleted :: "network \<Rightarrow> hook_state \<Rightarrow> hook_state" where
  "clearCompleted net st =
     (let completedIds = map (\<lambda>t. obj_get t ''id'') (filter (\<lambda>t. truthy (obj_get t ''completed'')) (allTasks st))
      in if completedIds = [] then st
         else withOptimistic
                (filter (\<lambda>t. \<not> truthy (obj_get t ''completed'')))
                (if provider st = Api
                 then await_then (allSettled (map (\<lambda>i. snd (api_deleteTodo i net)) completedIds)) (\<lambda>r. id)
                 else Inr id)
                restore_snapshot st)"

section \<open>Notions used to state the properties\<close>

text \<open>The task object \<open>{id, title, completed}\<close> with a text identifier.\<close>

definition make_task :: "string \<Rightarrow> string \<Rightarrow> bool \<Rightarrow> obj" where
  "make_task ident title done = [(''id'', JStr ident), (''title'', JStr title), (''completed'', JBool done)]"

definition task_ids :: "obj list \<Rightarrow> jsval list" where
  "task_ids ts = map (\<lambda>t. obj_get t ''id'') ts"

definition task_titles :: "obj list \<Rightarrow> jsval list" where
  "task_titles ts = map (\<lambda>t. obj_get t ''title'') ts"

definition is_completed :: "obj \<Rightarrow> bool" where
  "is_completed t = truthy (obj_get t ''completed'')"

text \<open>The title as the view reads it: \<open>String(t.title || "")\<close>.\<close>

definition title_text :: "obj \<Rightarrow> string" where
  "title_text t = js_String (js_or (obj_get t ''title'') (JStr []))"

text \<open>A text without leading or trailing white space.\<close>

definition no_outer_space :: "string \<Rightarrow> bool" where
  "no_outer_space s = (s = [] \<or> (\<not> is_space (hd s) \<and> \<not> is_space (last s)))"

text \<open>A failed call whose error the hook does not take for a network or server failure.\<close>

definition rejected :: "jsval + 'a \<Rightarrow> bool" where
  "rejected r = (case r of Inl err \<Rightarrow> \<not> isNetworkOrServerError err | Inr v \<Rightarrow> False)"


subsection \<open>The derived view in the words of the specification\<close>

text \<open>The filter condition: \<open>all\<close> passes everything, \<open>active\<close> requires a task that is not
  completed, \<open>completed\<close> one that is.\<close>

definition filter_condition :: "jsval \<Rightarrow> obj \<Rightarrow> bool" where
  "filter_condition flt t =
     (flt = JStr ''all'' \<or> (flt = JStr ''active'' \<and> \<not> is_completed t)
      \<or> (flt = JStr ''completed'' \<and> is_completed t))"

text \<open>The search condition on a given text: it occurs in the title, letter case ignored; the
  empty text passes everything.\<close>

definition search_condition :: "string \<Rightarrow> obj \<Rightarrow> bool" where
  "search_condition text t = (text = [] \<or> sublist (toLowerCase text) (toLowerCase (title_text t)))"

text \<open>The view with the search text taken as typed, and with the search text trimmed.\<close>

definition view_of_raw_search :: "obj list \<Rightarrow> jsval \<Rightarrow> string \<Rightarrow> obj list" where
  "view_of_raw_search tasks flt search =
     filter (\<lambda>t. filter_condition flt t \<and> search_condition search t) tasks"

definition view_of_trimmed_search :: "obj list \<Rightarrow> jsval \<Rightarrow> string \<Rightarrow> obj list" where
  "view_of_trimmed_search tasks flt search =
     filter (\<lambda>t. filter_condition flt t \<and> search_condition (trim search) t) tasks"

subsection \<open>Sample inputs\<close>

definition remote_env :: environment where
  "remote_env key = (if key = ''REACT_APP_API_BASE'' then Some ''http://localhost:3001'' else None)"

definition sample_gids :: "nat \<Rightarrow> string" where
  "sample_gids i = ''t_'' @ string_of_nat i"

text \<open>A network that treats every request alike.\<close>

definition answering :: "fetch_outcome \<Rightarrow> network" where
  "answering out req = out"

definition one_task_remote :: hook_state where
  "one_task_remote = \<lparr>provider = Api, allTasks = [make_task ''a'' ''x'' False]\<rparr>"


definition one_task_local :: hook_state where
  "one_task_local = \<lparr>provider = Local, allTasks = [make_task ''a'' ''x'' False]\<rparr>"


definition scenario_tasks :: "obj list" where
  "scenario_tasks = [make_task ''1'' ''a'' True, make_task ''2'' ''b'' False, make_task ''3'' ''c'' True]"

definition local_env :: environment where
  "local_env key = None"

definition offline :: network where
  "offline = answering (ThrowsOther JUndefined)"



text \<open>An identifier as \<open>generateId\<close> builds it.\<close>

definition generated_id :: string where
  "generated_id = generateId ''lx2k3m9p'' ''a1b2c3'' ''1''"

text \<open>A created task as a server returns it, with an identifier of the server's.\<close>

definition created_by_server :: jsval where
  "created_by_server = JObj 3 [(''id'', JNum 7), (''title'', JStr ''z''), (''completed'', JBool False)]"

section \<open>Basic facts\<close>

lemma obj_get_update: "obj_get (AList.update k v t) k' = (if k' = k then v else obj_get t k')"
  by (simp add: obj_get_def update_conv')

lemma withOptimistic_local:
  "provider st = Local \<Longrightarrow> withOptimistic f a r st = st\<lparr>allTasks := f (allTasks st)\<rparr>"
  by (simp add: withOptimistic_def optimistic_phase_def)

lemma withOptimistic_success:
  "provider st = Api \<Longrightarrow> withOptimistic f (Inr u) r st = st\<lparr>allTasks := u (f (allTasks st))\<rparr>"
  by (simp add: withOptimistic_def optimistic_phase_def commit_phase_def)

lemma withOptimistic_rejected:
  "provider st = Api \<Longrightarrow> \<not> isNetworkOrServerError err \<Longrightarrow>
   withOptimistic f (Inl err) restore_snapshot st = st"
  by (simp add: withOptimistic_def optimistic_phase_def commit_phase_def restore_snapshot_def)

lemma withOptimistic_transient:
  "provider st = Api \<Longrightarrow> isNetworkOrServerError err \<Longrightarrow>
   withOptimistic f (Inl err) restore_snapshot st = st\<lparr>provider := Local\<rparr>"
  by (simp add: withOptimistic_def optimistic_phase_def commit_phase_def restore_snapshot_def)

lemma await_then_rejected:
  "rejected r \<Longrightarrow> \<exists>err. await_then r k = Inl err \<and> \<not> isNetworkOrServerError err"
  by (cases r) (simp_all add: rejected_def await_then_def)

lemma withOptimistic_await_rejected:
  "provider st = Api \<Longrightarrow> rejected r \<Longrightarrow> withOptimistic f (await_then r k) restore_snapshot st = st"
  using await_then_rejected[of r k] withOptimistic_rejected[of st] by auto

lemma sint_status_number: "sint (status_number s) = min (int s) 9007199254740991"
proof -
  have "signed_take_bit 53 (min (int s) 9007199254740991) = min (int s) 9007199254740991"
    by (intro signed_take_bit_int_eq_self) simp_all
  then show ?thesis
    unfolding status_number_def by (simp add: signed_of_int)
qed

lemma status_number_ge: "500 \<le> sint (status_number s) \<longleftrightarrow> 500 \<le> s"
  by (auto simp add: sint_status_number min_def)


lemma thrown_for_response:
  "isNetworkOrServerError (catch_error (throwForResponse s b)) \<longleftrightarrow> 500 \<le> s"
  "js_get (catch_error (throwForResponse s b)) ''status'' = JNum (status_number s)"
  "s < 500 \<Longrightarrow> \<not> truthy (js_get (catch_error (throwForResponse s b)) ''isNetworkOrServerError'')"
  by (auto simp add: catch_error_def throwForResponse_def Let_def obj_get_def isNetworkOrServerError_def
      status_number_ge)




lemma answering_rejected:
  "\<not> resp_ok s \<Longrightarrow> s < 500 \<Longrightarrow> rejected (snd (requestJson path meth body (answering (Resolves s b))))"
  by (simp add: requestJson_def answering_def rejected_def thrown_for_response)


lemma last_dropWhile: "dropWhile P xs \<noteq> [] \<Longrightarrow> last (dropWhile P xs) = last xs"
  by (induction xs) (auto split: if_splits)

lemma trim_no_outer_space: "no_outer_space (trim s)"
proof (cases "trim s = []")
  case True
  then show ?thesis by (simp add: no_outer_space_def)
next
  case False
  let ?u = "dropWhile is_space s"
  let ?v = "dropWhile is_space (rev ?u)"
  have v: "?v \<noteq> []" using False by (simp add: trim_def)
  have u: "?u \<noteq> []"
  proof
    assume "?u = []"
    then have "?v = []" by (metis dropWhile.simps(1) rev.simps(1))
    then show False using v by simp
  qed
  have "last (trim s) = hd ?v" using v by (simp add: trim_def last_rev)
  then have l: "\<not> is_space (last (trim s))" using v hd_dropWhile[of is_space "rev ?u"] by simp
  have "hd (trim s) = last ?v" using v by (simp add: trim_def hd_rev)
  also have "\<dots> = last (rev ?u)" using v by (rule last_dropWhile)
  also have "\<dots> = hd ?u" using u by (simp add: last_rev)
  finally have h: "\<not> is_space (hd (trim s))" using u hd_dropWhile[of is_space s] by simp
  show ?thesis using h l by (simp add: no_outer_space_def)
qed

lemma normalizeTodo_new_item:
  "normalizeTodo gid (JObj r (make_task gid t False)) = Some (make_task gid t False)"
  by (simp add: normalizeTodo_def make_task_def spread_def own_props_def coalesce_def obj_get_def)

lemma lower_empty: "toLowerCase s = [] \<longleftrightarrow> s = []"
  by (simp add: toLowerCase_def)

lemma spread_single: "spread t [(k, v)] = AList.update k v t"
  by (simp add: spread_def)







lemma withOptimistic_tasks:
  "allTasks (withOptimistic f a restore_snapshot st) =
     (if provider st = Local then f (allTasks st)
      else case a of Inl e \<Rightarrow> allTasks st | Inr u \<Rightarrow> u (f (allTasks st)))"
  by (simp add: withOptimistic_def optimistic_phase_def commit_phase_def restore_snapshot_def Let_def
      split: sum.splits)

lemma await_then_cases:
  "(\<exists>e. await_then r k = Inl e) \<or> (\<exists>v. r = Inr v \<and> await_then r k = Inr (k v))"
  by (cases r) (simp_all add: await_then_def)

lemma plain_commit_tasks:
  "allTasks (withOptimistic f (if c then await_then r (\<lambda>v. id) else Inr id) restore_snapshot st) = allTasks st
   \<or> allTasks (withOptimistic f (if c then await_then r (\<lambda>v. id) else Inr id) restore_snapshot st) = f (allTasks st)"
  using await_then_cases[of r "\<lambda>v. id"]
  by (auto simp add: withOptimistic_tasks)

lemma obj_get_spread_other:
  "k \<notin> fst ` set src \<Longrightarrow> obj_get (spread t src) k = obj_get t k"
proof (induction src arbitrary: t)
  case Nil
  then show ?case by (simp add: spread_def)
next
  case (Cons kv src)
  obtain k' v' where kv: "kv = (k', v')" by (cases kv)
  have "spread t (kv # src) = spread (AList.update k' v' t) src"
    by (simp add: spread_def kv)
  then show ?case using Cons kv by (simp add: obj_get_update)
qed

lemma task_ids_map_keep:
  "(\<And>t. obj_get (g t) ''id'' = obj_get t ''id'') \<Longrightarrow> task_ids (map g ts) = task_ids ts"
  by (simp add: task_ids_def)

lemma toggle_ids: "task_ids (allTasks (toggleTodo ident net st)) = task_ids (allTasks st)"
proof (cases "truthy ident")
  case False
  then show ?thesis by (simp add: toggleTodo_def)
next
  case True
  show ?thesis
  proof (cases "find (\<lambda>t. strict_eq (obj_get t ''id'') ident) (allTasks st)")
    case None
    then show ?thesis by (simp add: toggleTodo_def)
  next
    case (Some target)
    let ?g = "\<lambda>t. if strict_eq (obj_get t ''id'') ident
                   then spread t [(''completed'', JBool (\<not> truthy (obj_get target ''completed'')))] else t"
    let ?a = "if provider st = Api
              then await_then (snd (api_updateTodo ident
                     (JObj 0 [(''completed'', JBool (\<not> truthy (obj_get target ''completed'')))]) net)) (\<lambda>r. id)
              else Inr id"
    have t: "toggleTodo ident net st = withOptimistic (map ?g) ?a restore_snapshot st"
      using True Some by (simp add: toggleTodo_def Let_def)
    have "task_ids (map ?g (allTasks st)) = task_ids (allTasks st)"
      by (rule task_ids_map_keep) (simp add: spread_single obj_get_update)
    then show ?thesis
      using plain_commit_tasks[of "map ?g" "provider st = Api"
          "snd (api_updateTodo ident (JObj 0 [(''completed'', JBool (\<not> truthy (obj_get target ''completed'')))]) net)" st]
      by (auto simp add: t)
  qed
qed

lemma safe_updates_keys:
  "map_of al ''id'' = None \<Longrightarrow>
   ''id'' \<notin> fst ` set (case obj_get al ''title'' of JStr s \<Rightarrow> AList.update ''title'' (JStr (trim s)) al | _ \<Rightarrow> al)"
  by (auto simp add: map_of_eq_None_iff dom_update split: jsval.splits)

lemma update_ids:
  assumes "map_of (own_props updates) ''id'' = None"
  shows "task_ids (allTasks (updateTodo ident updates net st)) = task_ids (allTasks st)"
proof (cases "\<not> truthy ident \<or> \<not> truthy updates \<or> \<not> typeof_object updates")
  case True
  then show ?thesis by (auto simp add: updateTodo_def)
next
  case False
  let ?safe = "case obj_get (own_props updates) ''title'' of
                 JStr s \<Rightarrow> AList.update ''title'' (JStr (trim s)) (own_props updates)
               | _ \<Rightarrow> own_props updates"
  let ?g = "\<lambda>t. if strict_eq (obj_get t ''id'') ident then spread t ?safe else t"
  let ?a = "if provider st = Api
            then await_then (snd (api_updateTodo ident (JObj 0 ?safe) net)) (\<lambda>r. id)
            else Inr id"
  have u: "updateTodo ident updates net st = withOptimistic (map ?g) ?a restore_snapshot st"
    using False by (simp add: updateTodo_def Let_def)
  have "task_ids (map ?g (allTasks st)) = task_ids (allTasks st)"
    by (rule task_ids_map_keep) (simp add: obj_get_spread_other[OF safe_updates_keys[OF assms]])
  then show ?thesis
    using plain_commit_tasks[of "map ?g" "provider st = Api" "snd (api_updateTodo ident (JObj 0 ?safe) net)" st]
    by (auto simp add: u)
qed

lemma delete_tasks: "\<exists>P. allTasks (deleteTodo ident net st) = filter P (allTasks st)"
proof (cases "truthy ident")
  case False
  then have "allTasks (deleteTodo ident net st) = filter (\<lambda>t. True) (allTasks st)"
    by (simp add: deleteTodo_def)
  then show ?thesis by blast
next
  case True
  let ?a = "if provider st = Api then await_then (snd (api_deleteTodo ident net)) (\<lambda>r. id) else Inr id"
  have d: "deleteTodo ident net st
      = withOptimistic (filter (\<lambda>t. \<not> strict_eq (obj_get t ''id'') ident)) ?a restore_snapshot st"
    using True by (simp add: deleteTodo_def)
  have "allTasks (deleteTodo ident net st) = filter (\<lambda>t. True) (allTasks st)
      \<or> allTasks (deleteTodo ident net st) = filter (\<lambda>t. \<not> strict_eq (obj_get t ''id'') ident) (allTasks st)"
    using plain_commit_tasks[of "filter (\<lambda>t. \<not> strict_eq (obj_get t ''id'') ident)" "provider st = Api"
        "snd (api_deleteTodo ident net)" st]
    by (auto simp add: d)
  then show ?thesis by blast
qed

text \<open>What \<open>addTodo\<close> does with a title that does not trim to the empty text, by mode and
  by the outcome of the create call.\<close>

lemma addTodo_unfold:
  assumes "trim (js_String (js_or title (JStr []))) \<noteq> []"
  shows "addTodo gid gid2 title net st =
           withOptimistic
             (\<lambda>prev. make_task gid (trim (js_String (js_or title (JStr [])))) False # prev)
             (addTodo_apiCall (provider st) gid2 (trim (js_String (js_or title (JStr []))))
                (make_task gid (trim (js_String (js_or title (JStr [])))) False) net)
             restore_snapshot st"
proof -
  have "normalizeTodo gid (JObj 0 [(''id'', JStr gid), (''title'', JStr t), (''completed'', JBool False)])
      = Some (make_task gid t False)" for t
    by (simp add: normalizeTodo_def make_task_def spread_def own_props_def coalesce_def obj_get_def)
  then show ?thesis using assms by (simp add: addTodo_def Let_def)
qed

lemma addTodo_local:
  assumes "trim (js_String (js_or title (JStr []))) \<noteq> []" and "provider st = Local"
  shows "addTodo gid gid2 title net st
           = st\<lparr>allTasks := make_task gid (trim (js_String (js_or title (JStr [])))) False # allTasks st\<rparr>"
  using assms(2) by (simp add: addTodo_unfold[OF assms(1)] withOptimistic_local)

lemma addTodo_failed:
  assumes "trim (js_String (js_or title (JStr []))) \<noteq> []" and "provider st = Api"
      and "snd (createTodo (JObj 0 [(''title'', JStr (trim (js_String (js_or title (JStr []))))),
                                    (''completed'', JBool False)]) net) = Inl e"
  shows "addTodo gid gid2 title net st = (if isNetworkOrServerError e then st\<lparr>provider := Local\<rparr> else st)"
  using assms(2,3)
  by (simp add: addTodo_unfold[OF assms(1)] addTodo_apiCall_def await_then_def
      withOptimistic_rejected withOptimistic_transient)

lemma addTodo_created:
  assumes "trim (js_String (js_or title (JStr []))) \<noteq> []" and "provider st = Api"
      and "snd (createTodo (JObj 0 [(''title'', JStr (trim (js_String (js_or title (JStr []))))),
                                    (''completed'', JBool False)]) net) = Inr v"
  shows "addTodo gid gid2 title net st
           = st\<lparr>allTasks :=
                 (case normalizeTodo gid2 v of
                    None \<Rightarrow> make_task gid (trim (js_String (js_or title (JStr [])))) False # allTasks st
                  | Some n \<Rightarrow> n # map (\<lambda>t. if strict_eq (obj_get t ''id'') (JStr gid) then n else t)
                                      (allTasks st))\<rparr>"
proof -
  have i: "obj_get (make_task gid t False) ''id'' = JStr gid" for t
    by (simp add: make_task_def obj_get_def)
  show ?thesis
    using assms(2,3)
    by (cases "normalizeTodo gid2 v")
      (simp_all add: addTodo_unfold[OF assms(1)] addTodo_apiCall_def await_then_def
        withOptimistic_success i)
qed

lemma clearCompleted_tasks:
  "clearCompleted net st = st\<lparr>allTasks := filter (\<lambda>t. \<not> is_completed t) (allTasks st)\<rparr>"
proof (cases "filter is_completed (allTasks st) = []")
  case True
  then have "filter (\<lambda>t. \<not> is_completed t) (allTasks st) = allTasks st"
    by (simp add: filter_empty_conv filter_id_conv)
  moreover have "clearCompleted net st = st"
    using True by (simp add: clearCompleted_def is_completed_def[abs_def])
  ultimately show ?thesis by simp
next
  case False
  show ?thesis
  proof (cases "provider st")
    case Api
    then show ?thesis using False
      by (simp add: clearCompleted_def is_completed_def[abs_def] allSettled_def await_then_def
          withOptimistic_success)
  next
    case Local
    then show ?thesis using False
      by (simp add: clearCompleted_def is_completed_def[abs_def] withOptimistic_local)
  qed
qed

lemma clearCompleted_nothing_done:
  "list_all (\<lambda>t. \<not> is_completed t) (allTasks st) \<Longrightarrow> clearCompleted net st = st"
  by (simp add: clearCompleted_def is_completed_def[abs_def] list_all_iff filter_empty_conv)

section \<open>Rollback on a rejected commit\<close>

text \<open>
  Claim C3. In API mode, a mutation whose backend call fails with an error that is not a
  network or server failure ends in the state it started from: the list is the snapshot
  again and the mode is still API. This holds of \<open>withOptimistic\<close> for every optimistic
  change, and so of add, toggle, update and delete when the call they await is rejected.
  (\<open>clearCompleted\<close> awaits \<open>Promise.allSettled\<close>, which does not fail.)
\<close>

theorem rejected_commit_restores_snapshot:
  assumes "provider st = Api"
  shows "(rejected (snd (createTodo (JObj 0 [(''title'', JStr (trim (js_String (js_or title (JStr []))))),
                                           (''completed'', JBool False)]) net))
            \<longrightarrow> addTodo gid gid2 title net st = st)
       \<and> ((\<forall>p. rejected (snd (api_updateTodo ident p net))) \<longrightarrow> toggleTodo ident net st = st)
       \<and> ((\<forall>p. rejected (snd (api_updateTodo ident p net))) \<longrightarrow> updateTodo ident updates net st = st)
       \<and> (rejected (snd (api_deleteTodo ident net)) \<longrightarrow> deleteTodo ident net st = st)
       \<and> (\<forall>f err. \<not> isNetworkOrServerError err \<longrightarrow> withOptimistic f (Inl err) restore_snapshot st = st)"
proof -
  note rb = withOptimistic_await_rejected[OF assms]
  have a: "addTodo gid gid2 title net st = st"
    if "rejected (snd (createTodo (JObj 0 [(''title'', JStr (trim (js_String (js_or title (JStr []))))),
                                           (''completed'', JBool False)]) net))"
    using that by (simp add: addTodo_def addTodo_apiCall_def Let_def assms rb split: option.splits)
  have t: "toggleTodo ident net st = st" if "\<forall>p. rejected (snd (api_updateTodo ident p net))"
    using that by (simp add: toggleTodo_def Let_def assms rb split: option.splits)
  have u: "updateTodo ident updates net st = st" if "\<forall>p. rejected (snd (api_updateTodo ident p net))"
    using that by (simp add: updateTodo_def Let_def assms rb split: jsval.splits)
  have d: "deleteTodo ident net st = st" if "rejected (snd (api_deleteTodo ident net))"
    using that by (simp add: deleteTodo_def assms rb)
  show ?thesis using a t u d withOptimistic_rejected[OF assms] by blast
qed

theorem rejected_commit_restores_snapshot_witness:
  "provider one_task_remote = Api
   \<and> addTodo ''t_1'' ''t_2'' (JStr ''Buy milk'') (answering (Resolves 404 JNull)) one_task_remote = one_task_remote
   \<and> toggleTodo (JStr ''a'') (answering (Resolves 404 JNull)) one_task_remote = one_task_remote
   \<and> updateTodo (JStr ''a'') (JObj 0 [(''title'', JStr ''y'')]) (answering (Resolves 404 JNull)) one_task_remote = one_task_remote
   \<and> deleteTodo (JStr ''a'') (answering (Resolves 404 JNull)) one_task_remote = one_task_remote"
proof -
  have p: "provider one_task_remote = Api" by (simp add: one_task_remote_def)
  have r: "rejected (snd (requestJson path meth body (answering (Resolves 404 JNull))))" for path meth body
    by (rule answering_rejected) (simp_all add: resp_ok_def)
  show ?thesis
    using rejected_commit_restores_snapshot [OF p, of "JStr ''Buy milk''" "answering (Resolves 404 JNull)"
        "''t_1''" "''t_2''" "JStr ''a''" "JObj 0 [(''title'', JStr ''y'')]"] p r
    by (simp add: createTodo_def api_updateTodo_def api_deleteTodo_def)
qed

section \<open>Initialisation in API mode when the list call fails\<close>



section \<open>Classification of failures by the API service\<close>



section \<open>Adding a task\<close>




section \<open>Clearing the completed tasks\<close>

text \<open>
  Claim C7. \<open>clearCompleted\<close> leaves the state unchanged when no task is completed. In every
  case, whatever the network does with the delete calls and in either mode, the resulting
  list is the list of the tasks that are not completed, in their order, and the mode is the
  one before.
\<close>

theorem clearCompleted_keeps_open_tasks:
  "clearCompleted net st = st\<lparr>allTasks := filter (\<lambda>t. \<not> is_completed t) (allTasks st)\<rparr>
   \<and> (list_all (\<lambda>t. \<not> is_completed t) (allTasks st) \<longrightarrow> clearCompleted net st = st)"
  using clearCompleted_tasks [of net st] clearCompleted_nothing_done [of st net] by blast

theorem clearCompleted_keeps_open_tasks_witness:
  "clearCompleted (answering (Resolves 503 JNull)) \<lparr>provider = Api, allTasks = scenario_tasks\<rparr>
     = \<lparr>provider = Api, allTasks = [make_task ''2'' ''b'' False]\<rparr>
   \<and> clearCompleted (answering (Resolves 200 JNull)) \<lparr>provider = Api, allTasks = scenario_tasks\<rparr>
     = \<lparr>provider = Api, allTasks = [make_task ''2'' ''b'' False]\<rparr>
   \<and> list_all (\<lambda>t. \<not> is_completed t) (allTasks one_task_remote)
   \<and> clearCompleted (answering (Resolves 200 JNull)) one_task_remote = one_task_remote"
proof -
  have f: "filter (\<lambda>t. \<not> is_completed t) scenario_tasks = [make_task ''2'' ''b'' False]"
    by (simp add: scenario_tasks_def is_completed_def make_task_def obj_get_def)
  have n: "list_all (\<lambda>t. \<not> is_completed t) (allTasks one_task_remote)"
    by (simp add: one_task_remote_def is_completed_def make_task_def obj_get_def)
  have a: "clearCompleted (answering (Resolves 503 JNull)) \<lparr>provider = Api, allTasks = scenario_tasks\<rparr>
     = \<lparr>provider = Api, allTasks = [make_task ''2'' ''b'' False]\<rparr>"
    using clearCompleted_keeps_open_tasks
      [of "answering (Resolves 503 JNull)" "\<lparr>provider = Api, allTasks = scenario_tasks\<rparr>"] f
    by simp
  have b: "clearCompleted (answering (Resolves 200 JNull)) \<lparr>provider = Api, allTasks = scenario_tasks\<rparr>
     = \<lparr>provider = Api, allTasks = [make_task ''2'' ''b'' False]\<rparr>"
    using clearCompleted_keeps_open_tasks
      [of "answering (Resolves 200 JNull)" "\<lparr>provider = Api, allTasks = scenario_tasks\<rparr>"] f
    by simp
  have c: "clearCompleted (answering (Resolves 200 JNull)) one_task_remote = one_task_remote"
    using clearCompleted_keeps_open_tasks [of "answering (Resolves 200 JNull)" one_task_remote] n
    by blast
  show ?thesis using a b c n by blast
qed

section \<open>The derived view\<close>

text \<open>
  Claim C8, as stated: the view keeps the tasks that satisfy the filter condition and in
  whose title the search text occurs, letter case ignored, the empty search text passing
  everything. The code trims the search text first, so a search text of one space keeps a
  task whose title has no space in it.
\<close>

theorem view_search_text_is_trimmed:
  "filterAndSearch [make_task ''a'' ''ab'' False] (JStr ''all'') '' ''
     \<noteq> view_of_raw_search [make_task ''a'' ''ab'' False] (JStr ''all'') '' ''"
  by code_simp

text \<open>
  Claim C8, amended. For each of the filter values \<open>all\<close>, \<open>active\<close> and \<open>completed\<close>, the view
  keeps exactly the tasks that satisfy the filter condition and in whose title the trimmed
  search text occurs, letter case ignored, a search text that trims to the empty text
  passing everything. The view for \<open>active\<close> holds no completed task and the view for
  \<open>completed\<close> holds only completed tasks.
\<close>

theorem view_filters_and_searches:
  assumes "flt \<in> {JStr ''all'', JStr ''active'', JStr ''completed''}"
  shows "filterAndSearch tasks flt search = view_of_trimmed_search tasks flt search
       \<and> (\<forall>t \<in> set (filterAndSearch tasks (JStr ''active'') search). \<not> is_completed t)
       \<and> (\<forall>t \<in> set (filterAndSearch tasks (JStr ''completed'') search). is_completed t)"
proof -
  have eq: "filterAndSearch tasks flt search = view_of_trimmed_search tasks flt search"
    using assms
    by (auto simp add: filterAndSearch_def view_of_trimmed_search_def Let_def filter_condition_def
        search_condition_def is_completed_def title_text_def str_includes_def lower_empty
        intro!: filter_cong)
  have act: "\<forall>t \<in> set (filterAndSearch tasks (JStr ''active'') search). \<not> is_completed t"
    by (simp add: filterAndSearch_def Let_def is_completed_def)
  have com: "\<forall>t \<in> set (filterAndSearch tasks (JStr ''completed'') search). is_completed t"
    by (simp add: filterAndSearch_def Let_def is_completed_def)
  show ?thesis using eq act com by blast
qed

theorem view_filters_and_searches_witness:
  "JStr ''active'' \<in> {JStr ''all'', JStr ''active'', JStr ''completed''}
   \<and> filterAndSearch [make_task ''1'' ''Buy Milk'' False, make_task ''2'' ''Buy bread'' False,
                       make_task ''3'' ''milk run'' True] (JStr ''active'') '' MILK ''
       = [make_task ''1'' ''Buy Milk'' False]"
proof -
  have m: "JStr ''active'' \<in> {JStr ''all'', JStr ''active'', JStr ''completed''}" by simp
  have v: "view_of_trimmed_search [make_task ''1'' ''Buy Milk'' False, make_task ''2'' ''Buy bread'' False,
                       make_task ''3'' ''milk run'' True] (JStr ''active'') '' MILK ''
       = [make_task ''1'' ''Buy Milk'' False]"
    by code_simp
  show ?thesis
    using view_filters_and_searches [OF m, of "[make_task ''1'' ''Buy Milk'' False,
        make_task ''2'' ''Buy bread'' False, make_task ''3'' ''milk run'' True]" "'' MILK ''"] v m
    by simp
qed

section \<open>Toggling twice\<close>




section \<open>A missing identifier\<close>

text \<open>
  Claim C10. For an identifier that is missing or empty, the update and the delete
  operations of the API service raise without issuing a request. The error has the status
  400 and no \<open>isNetworkOrServerError\<close> property, and the hook does not take it for a network
  or server failure: in API mode \<open>withOptimistic\<close> answers it by restoring the snapshot and
  staying in API mode.
\<close>

theorem missing_id_raises_before_request:
  assumes "\<not> truthy ident"
      and "r \<in> {api_updateTodo ident payload net, api_deleteTodo ident net}"
  shows "fst r = []
       \<and> (\<exists>err. snd r = Inl err \<and> js_get err ''status'' = JNum 400
                \<and> js_get err ''isNetworkOrServerError'' = JUndefined
                \<and> \<not> isNetworkOrServerError err
                \<and> (provider st = Api \<longrightarrow> withOptimistic f (Inl err) restore_snapshot st = st))"
  using assms
  by (auto simp add: api_updateTodo_def api_deleteTodo_def obj_get_def isNetworkOrServerError_def
      withOptimistic_rejected)

theorem missing_id_raises_before_request_witness:
  "\<not> truthy (JStr [])
   \<and> fst (api_deleteTodo (JStr []) (answering (Resolves 200 JNull))) = []
   \<and> (\<exists>err. snd (api_deleteTodo (JStr []) (answering (Resolves 200 JNull))) = Inl err
            \<and> js_get err ''status'' = JNum 400
            \<and> withOptimistic tl (Inl err) restore_snapshot one_task_remote = one_task_remote)
   \<and> \<not> truthy JUndefined
   \<and> fst (api_updateTodo JUndefined (JObj 0 []) (answering (Resolves 200 JNull))) = []"
proof -
  have p: "provider one_task_remote = Api" by (simp add: one_task_remote_def)
  have d: "api_deleteTodo (JStr []) (answering (Resolves 200 JNull))
        \<in> {api_updateTodo (JStr []) JNull (answering (Resolves 200 JNull)),
            api_deleteTodo (JStr []) (answering (Resolves 200 JNull))}"
    by simp
  have u: "api_updateTodo JUndefined (JObj 0 []) (answering (Resolves 200 JNull))
        \<in> {api_updateTodo JUndefined (JObj 0 []) (answering (Resolves 200 JNull)),
            api_deleteTodo JUndefined (answering (Resolves 200 JNull))}"
    by simp
  have e: "\<not> truthy (JStr [])" "\<not> truthy JUndefined" by simp_all
  show ?thesis
    using missing_id_raises_before_request [OF e(1) d, of one_task_remote tl]
      missing_id_raises_before_request [OF e(2) u, of one_task_remote tl] p
    by auto
qed

section \<open>Identifiers under the mutations\<close>

text \<open>
  Claim C2, as stated: no mutation changes the identifier of a task, and \<open>update(id, fields)\<close>
  leaves the identifier of the matched task equal to \<open>id\<close> for every \<open>fields\<close>. The code merges
  every given field into the task, an \<open>id\<close> field included: updating the task \<open>a\<close> with the
  fields \<open>{id: "b"}\<close> leaves a task \<open>b\<close>. And a successful create replaces every task whose
  identifier is the one generated for the new task by the created task: with a task in the
  list whose identifier is generated again, that task ends with the identifier 7 of the
  server.
\<close>

theorem update_overwrites_id:
  "task_ids (allTasks one_task_local) = [JStr ''a'']
   \<and> task_ids (allTasks (updateTodo (JStr ''a'') (JObj 4 [(''id'', JStr ''b'')]) offline one_task_local))
       = [JStr ''b'']
   \<and> task_ids (allTasks (addTodo generated_id ''t_2'' (JStr ''z'') (answering (Resolves 201 created_by_server))
        \<lparr>provider = Api, allTasks = [make_task generated_id ''x'' False]\<rparr>))
       = [JNum 7, JNum 7]"
  by code_simp

text \<open>
  Claim C2, amended. Whatever the mode and the outcome of the backend call: \<open>toggleTodo\<close>
  leaves the identifiers of the list as they are, position by position; so does
  \<open>updateTodo\<close> for every \<open>fields\<close> argument without an \<open>id\<close> field; \<open>deleteTodo\<close> and
  \<open>clearCompleted\<close> leave a selection of the tasks, each unchanged; and \<open>addTodo\<close> leaves
  the list as it is or puts one task in front of it, the tasks of the list unchanged except,
  after a successful create, those whose identifier is the generated one.
\<close>

theorem mutations_keep_ids:
  "task_ids (allTasks (toggleTodo ident net st)) = task_ids (allTasks st)
   \<and> (map_of (own_props updates) ''id'' = None
        \<longrightarrow> task_ids (allTasks (updateTodo ident updates net st)) = task_ids (allTasks st))
   \<and> (\<exists>P. allTasks (deleteTodo ident net st) = filter P (allTasks st))
   \<and> (\<exists>P. allTasks (clearCompleted net st) = filter P (allTasks st))
   \<and> (allTasks (addTodo gid gid2 title net st) = allTasks st
       \<or> (\<exists>n. allTasks (addTodo gid gid2 title net st) = n # allTasks st)
       \<or> (\<exists>n. allTasks (addTodo gid gid2 title net st)
                = n # map (\<lambda>t. if strict_eq (obj_get t ''id'') (JStr gid) then n else t) (allTasks st)))"
proof -
  have c: "\<exists>P. allTasks (clearCompleted net st) = filter P (allTasks st)"
    using clearCompleted_tasks [of net st] by auto
  let ?t = "trim (js_String (js_or title (JStr [])))"
  let ?r = "snd (createTodo (JObj 0 [(''title'', JStr ?t), (''completed'', JBool False)]) net)"
  have a: "allTasks (addTodo gid gid2 title net st) = allTasks st
       \<or> (\<exists>n. allTasks (addTodo gid gid2 title net st) = n # allTasks st)
       \<or> (\<exists>n. allTasks (addTodo gid gid2 title net st)
                = n # map (\<lambda>t. if strict_eq (obj_get t ''id'') (JStr gid) then n else t) (allTasks st))"
  proof (cases "?t = []")
    case True
    then show ?thesis by (simp add: addTodo_def)
  next
    case False
    show ?thesis
    proof (cases "provider st")
      case Local
      then show ?thesis by (simp add: addTodo_local[OF False])
    next
      case Api
      show ?thesis
      proof (cases ?r)
        case (Inl e)
        then show ?thesis by (simp add: addTodo_failed[OF False Api])
      next
        case (Inr v)
        then show ?thesis
          by (cases "normalizeTodo gid2 v") (simp_all add: addTodo_created[OF False Api])
      qed
    qed
  qed
  show ?thesis
    using toggle_ids [of ident net st] update_ids [of updates ident net st]
      delete_tasks [of ident net st] c a
    by blast
qed

theorem mutations_keep_ids_witness:
  "map_of (own_props (JObj 4 [(''title'', JStr '' y '')])) ''id'' = None
   \<and> task_ids (allTasks (updateTodo (JStr ''a'') (JObj 4 [(''title'', JStr '' y '')]) offline one_task_local))
       = [JStr ''a'']"
proof -
  have k: "map_of (own_props (JObj 4 [(''title'', JStr '' y '')])) ''id'' = None"
    by (simp add: own_props_def)
  have i: "task_ids (allTasks one_task_local) = [JStr ''a'']"
    by (simp add: one_task_local_def task_ids_def make_task_def obj_get_def)
  show ?thesis
    using mutations_keep_ids [of "JStr ''a''" offline one_task_local "JObj 4 [(''title'', JStr '' y '')]"] k i
    by simp
qed

section \<open>Titles after initialisation\<close>

text \<open>
  Claim C1 says that no title in the list has leading or trailing white space, after
  initialisation from storage or from the remote list among others. \<open>normalizeTodo\<close> computes
  the trimmed title and then spreads the original object over it, so the title of a loaded
  task is the one received, whereas \<open>addTodo\<close> and \<open>updateTodo\<close> store the result of
  \<open>trim\<close>, which has no outer white space (\<open>trim_no_outer_space\<close>). Evaluated on a remote
  list and on a stored list that hold one task titled \<open>"  x  "\<close>:
\<close>

theorem loaded_title_keeps_outer_space:
  "task_titles (allTasks (session_start remote_env [] sample_gids sample_gids
       (answering (Resolves 200 (JArr 2 [JObj 1 (make_task ''a'' ''  x  '' False)]))))) = [JStr ''  x  '']
   \<and> task_titles (allTasks (session_start local_env [JObj 1 (make_task ''a'' ''  x  '' False)]
       sample_gids sample_gids offline)) = [JStr ''  x  '']
   \<and> no_outer_space ''  x  '' = False"
  by code_simp

end
